theory Spec2Isabelle
  imports Complex_Main
begin

section \<open>Data model (src/data_model.py)\<close>

text \<open>
  The three dataclasses of \<^verbatim>\<open>data_model.py\<close>, field by field and with the declared
  types: a Python \<^verbatim>\<open>float\<close> field is a \<^typ>\<open>real\<close>, a Python \<^verbatim>\<open>int\<close> field is an
  \<^typ>\<open>int\<close>. Floating-point numbers are idealised as real numbers throughout, so
  rounding and overflow of IEEE doubles are outside this development.
\<close>

record Camera =
  fx :: real
  fy :: real
  cx :: real
  cy :: real
  sensor_size_x_mm :: real
  sensor_size_y_mm :: real
  image_size_x :: int
  image_size_y :: int

record DatasetSpec =
  overlap :: real
  sidelap :: real
  height :: real
  scan_dimension_x :: int
  scan_dimension_y :: int
  exposure_time_ms :: int

record Waypoint =
  x :: real
  y :: real
  z :: real
  speed :: real

section \<open>Python and numpy arithmetic\<close>

text \<open>
  The exceptions the modelled code can raise. A function that can raise returns a sum
  type, with \<^term>\<open>Inl\<close> for the exception and \<^term>\<open>Inr\<close> for the value returned.
\<close>

datatype py_error = ZeroDivisionError | IndexError | ValueError | OverflowError

definition py_bind :: "py_error + 'a \<Rightarrow> ('a \<Rightarrow> py_error + 'b) \<Rightarrow> py_error + 'b" where
  "py_bind m f = (case m of Inl e \<Rightarrow> Inl e | Inr v \<Rightarrow> f v)"

text \<open>
  A \<^verbatim>\<open>numpy.float64\<close> (an element of an \<^verbatim>\<open>np.ndarray\<close>, or the result of an operation
  with one). Unlike a Python float, dividing it by zero raises nothing: the result is
  an infinity or a nan and numpy prints a warning. \<open>Infinite\<close> stands for an infinity
  of either sign: the sign depends on the sign of a floating-point zero, which a real
  number does not have.
\<close>

datatype float64 = Finite real | Infinite | NaN

fun np_true_divide :: "float64 \<Rightarrow> float64 \<Rightarrow> float64" where
  "np_true_divide NaN b = NaN"
| "np_true_divide a NaN = NaN"
| "np_true_divide Infinite Infinite = NaN"
| "np_true_divide Infinite (Finite b) = Infinite"
| "np_true_divide (Finite a) Infinite = Finite 0"
| "np_true_divide (Finite a) (Finite b) =
     (if b = 0 then (if a = 0 then NaN else Infinite) else Finite (a / b))"

fun np_multiply :: "float64 \<Rightarrow> float64 \<Rightarrow> float64" where
  "np_multiply NaN b = NaN"
| "np_multiply a NaN = NaN"
| "np_multiply Infinite Infinite = Infinite"
| "np_multiply Infinite (Finite b) = (if b = 0 then NaN else Infinite)"
| "np_multiply (Finite a) Infinite = (if a = 0 then NaN else Infinite)"
| "np_multiply (Finite a) (Finite b) = Finite (a * b)"

text \<open>Adding a (finite) Python float to a \<^verbatim>\<open>numpy.float64\<close>.\<close>

fun np_add_scalar :: "float64 \<Rightarrow> real \<Rightarrow> float64" where
  "np_add_scalar (Finite a) b = Finite (a + b)"
| "np_add_scalar Infinite b = Infinite"
| "np_add_scalar NaN b = NaN"

fun is_finite :: "float64 \<Rightarrow> bool" where
  "is_finite (Finite a) = True"
| "is_finite Infinite = False"
| "is_finite NaN = False"

text \<open>Python's \<^verbatim>\<open>a / b\<close> on Python numbers: a zero divisor raises.\<close>

definition py_truediv :: "real \<Rightarrow> real \<Rightarrow> py_error + real" where
  "py_truediv a b = (if b = 0 then Inl ZeroDivisionError else Inr (a / b))"

text \<open>
  \<^verbatim>\<open>math.ceil\<close> of a \<^verbatim>\<open>numpy.float64\<close>: an integer, OverflowError on an infinity,
  ValueError on a nan.
\<close>

fun math_ceil :: "float64 \<Rightarrow> py_error + int" where
  "math_ceil (Finite a) = Inr \<lceil>a\<rceil>"
| "math_ceil Infinite = Inl OverflowError"
| "math_ceil NaN = Inl ValueError"

text \<open>\<^verbatim>\<open>point[i]\<close> for a constant index \<open>i \<ge> 0\<close>: IndexError past the end.\<close>

definition py_index :: "'a list \<Rightarrow> nat \<Rightarrow> py_error + 'a" where
  "py_index xs i = (if i < length xs then Inr (xs ! i) else Inl IndexError)"

text \<open>\<^verbatim>\<open>range(n)\<close>: the numbers \<open>0, ..., n - 1\<close>, none when \<open>n \<le> 0\<close>.\<close>

definition py_range :: "int \<Rightarrow> nat list" where
  "py_range n = [0..<nat n]"

section \<open>Camera geometry (src/camera_utils.py)\<close>

definition compute_focal_length_in_mm :: "Camera \<Rightarrow> py_error + float64 \<times> float64" where
  "compute_focal_length_in_mm camera =
     py_bind (py_truediv (sensor_size_x_mm camera) (of_int (image_size_x camera)))
       (\<lambda>pixel_to_mm_x.
     py_bind (py_truediv (sensor_size_y_mm camera) (of_int (image_size_y camera)))
       (\<lambda>pixel_to_mm_y.
     Inr (Finite (fx camera * pixel_to_mm_x), Finite (fy camera * pixel_to_mm_y))))"

text \<open>
  The point is an \<^verbatim>\<open>np.ndarray\<close>, so \<^verbatim>\<open>X / Z\<close> is numpy's division; the camera's
  fields are Python floats.
\<close>

definition project_world_point_to_image ::
  "Camera \<Rightarrow> float64 list \<Rightarrow> py_error + float64 \<times> float64" where
  "project_world_point_to_image camera point =
     py_bind (py_index point 0) (\<lambda>X.
     py_bind (py_index point 1) (\<lambda>Y.
     py_bind (py_index point 2) (\<lambda>Z.
       let x = np_multiply (Finite (fx camera)) (np_true_divide X Z);
           y = np_multiply (Finite (fy camera)) (np_true_divide Y Z);
           u = np_add_scalar x (cx camera);
           v = np_add_scalar y (cy camera)
       in Inr (u, v))))"

definition compute_image_footprint_on_surface ::
  "Camera \<Rightarrow> real \<Rightarrow> py_error + float64 \<times> float64" where
  "compute_image_footprint_on_surface camera distance_from_surface =
     (let distance_mm = distance_from_surface * 1000 in
      py_bind (compute_focal_length_in_mm camera) (\<lambda>fl0.
      py_bind (compute_focal_length_in_mm camera) (\<lambda>fl1.
        let focal_length_x = fst fl0;
            focal_length_y = snd fl1;
            footprint_x =
              np_true_divide (Finite (sensor_size_x_mm camera * distance_mm)) focal_length_x;
            footprint_y =
              np_true_divide (Finite (sensor_size_y_mm camera * distance_mm)) focal_length_y
        in Inr (np_true_divide footprint_x (Finite 1000),
                np_true_divide footprint_y (Finite 1000)))))"

definition compute_ground_sampling_distance :: "Camera \<Rightarrow> real \<Rightarrow> py_error + real" where
  "compute_ground_sampling_distance camera distance_from_surface =
     py_truediv distance_from_surface (min (fx camera) (fy camera))"

section \<open>Plan computation (src/plan_computation.py)\<close>

definition compute_distance_between_images ::
  "Camera \<Rightarrow> DatasetSpec \<Rightarrow> py_error + float64 \<times> float64" where
  "compute_distance_between_images camera dataset_spec =
     py_bind (compute_image_footprint_on_surface camera (height dataset_spec)) (\<lambda>fp0.
     py_bind (compute_image_footprint_on_surface camera (height dataset_spec)) (\<lambda>fp1.
       let footprint_x = fst fp0;
           footprint_y = snd fp1;
           distance_x = np_multiply footprint_x (Finite (1 - overlap dataset_spec));
           distance_y = np_multiply footprint_y (Finite (1 - sidelap dataset_spec))
       in Inr (distance_x, distance_y)))"

definition compute_speed_during_photo_capture ::
  "Camera \<Rightarrow> DatasetSpec \<Rightarrow> real \<Rightarrow> py_error + real" where
  "compute_speed_during_photo_capture camera dataset_spec allowed_movement_px =
     py_bind (compute_ground_sampling_distance camera (height dataset_spec)) (\<lambda>gsd.
       let max_distance_meters = gsd * allowed_movement_px in
       py_bind (py_truediv (of_int (exposure_time_ms dataset_spec)) 1000) (\<lambda>exposure_time_s.
         py_truediv max_distance_meters exposure_time_s))"

text \<open>The call with \<^verbatim>\<open>allowed_movement_px\<close> left out: the parameter's default is 1.\<close>

definition compute_speed_during_photo_capture_default ::
  "Camera \<Rightarrow> DatasetSpec \<Rightarrow> py_error + real" where
  "compute_speed_during_photo_capture_default camera dataset_spec =
     compute_speed_during_photo_capture camera dataset_spec 1"

subsection \<open>The pieces of \<^verbatim>\<open>generate_photo_plan_on_grid\<close>\<close>

text \<open>
  Lines 75 and 76: \<^verbatim>\<open>1 if scan_dim == 0 else math.ceil(scan_dim / ideal_distance) + 1\<close>.
  The value is overwritten at once, but the expression is evaluated and can raise.
\<close>

definition num_lines_first :: "int \<Rightarrow> float64 \<Rightarrow> py_error + int" where
  "num_lines_first scan_dim ideal_distance =
     (if scan_dim = 0 then Inr 1
      else py_bind (math_ceil (np_true_divide (Finite (of_int scan_dim)) ideal_distance))
             (\<lambda>k. Inr (k + 1)))"

text \<open>
  Lines 79 and 82:
  \<^verbatim>\<open>0 if scan_dim == 0 else math.ceil(scan_dim / ideal_distance)\<close>.
\<close>

definition num_intervals :: "int \<Rightarrow> float64 \<Rightarrow> py_error + int" where
  "num_intervals scan_dim ideal_distance =
     (if scan_dim = 0 then Inr 0
      else math_ceil (np_true_divide (Finite (of_int scan_dim)) ideal_distance))"

text \<open>
  Lines 85 to 91: \<^verbatim>\<open>actual_distance = 0.0\<close>, then
  \<^verbatim>\<open>if num > 1: actual_distance = scan_dim / (num - 1)\<close>. Both operands are Python
  integers and the divisor is at least 1 under the guard.
\<close>

definition actual_distance :: "int \<Rightarrow> int \<Rightarrow> real" where
  "actual_distance scan_dim num =
     (if num > 1 then of_int scan_dim / of_int (num - 1) else 0)"

text \<open>Lines 98 to 103: the x coordinates of row \<open>r\<close>, by the parity of \<open>r\<close>.\<close>

definition x_coords :: "nat \<Rightarrow> int \<Rightarrow> real \<Rightarrow> int \<Rightarrow> real list" where
  "x_coords r scan_dim_x actual_distance_x num_cols =
     (if r mod 2 = 0
      then map (\<lambda>c. real c * actual_distance_x) (py_range num_cols)
      else map (\<lambda>c. of_int scan_dim_x - (real c * actual_distance_x)) (py_range num_cols))"

text \<open>Lines 106 to 109: the inner loop appends one waypoint per x coordinate.\<close>

fun append_row :: "real list \<Rightarrow> real \<Rightarrow> real \<Rightarrow> real \<Rightarrow> Waypoint list \<Rightarrow> Waypoint list" where
  "append_row [] y_coord h capture_speed photo_plan = photo_plan"
| "append_row (x_coord # rest) y_coord h capture_speed photo_plan =
     append_row rest y_coord h capture_speed
       (photo_plan @ [\<lparr>x = x_coord, y = y_coord, z = h, speed = capture_speed\<rparr>])"

text \<open>Lines 94 to 109: the outer loop over the rows.\<close>

fun scan_rows ::
  "nat list \<Rightarrow> int \<Rightarrow> real \<Rightarrow> real \<Rightarrow> int \<Rightarrow> real \<Rightarrow> real \<Rightarrow> Waypoint list \<Rightarrow> Waypoint list" where
  "scan_rows [] scan_dim_x actual_distance_x actual_distance_y num_cols h capture_speed
     photo_plan = photo_plan"
| "scan_rows (r # rs) scan_dim_x actual_distance_x actual_distance_y num_cols h capture_speed
     photo_plan =
     (let y_coord = real r * actual_distance_y
      in scan_rows rs scan_dim_x actual_distance_x actual_distance_y num_cols h capture_speed
           (append_row (x_coords r scan_dim_x actual_distance_x num_cols)
              y_coord h capture_speed photo_plan))"

definition generate_photo_plan_on_grid :: "Camera \<Rightarrow> DatasetSpec \<Rightarrow> py_error + Waypoint list" where
  "generate_photo_plan_on_grid camera dataset_spec =
     (let scan_dim_x = scan_dimension_x dataset_spec;
          scan_dim_y = scan_dimension_y dataset_spec;
          h = height dataset_spec
      in
      py_bind (compute_distance_between_images camera dataset_spec) (\<lambda>ideal.
        let ideal_distance_x = fst ideal; ideal_distance_y = snd ideal in
      py_bind (compute_speed_during_photo_capture_default camera dataset_spec)
        (\<lambda>capture_speed.
      py_bind (num_lines_first scan_dim_x ideal_distance_x) (\<lambda>num_cols0.
      py_bind (num_lines_first scan_dim_y ideal_distance_y) (\<lambda>num_rows0.
      py_bind (num_intervals scan_dim_x ideal_distance_x) (\<lambda>num_intervals_x.
        let num_cols = num_intervals_x + 1 in
      py_bind (num_intervals scan_dim_y ideal_distance_y) (\<lambda>num_intervals_y.
        let num_rows = num_intervals_y + 1;
            actual_distance_x = actual_distance scan_dim_x num_cols;
            actual_distance_y = actual_distance scan_dim_y num_rows
        in Inr (scan_rows (py_range num_rows) scan_dim_x actual_distance_x actual_distance_y
                  num_cols h capture_speed []))))))))"

section \<open>The invariants of the inputs\<close>

text \<open>
  The specification's invariants of a camera and of a dataset specification. The code
  does not check them; they are the hypotheses of the theorems below.
\<close>

definition valid_camera :: "Camera \<Rightarrow> bool" where
  "valid_camera camera \<longleftrightarrow>
     0 < fx camera \<and> 0 < fy camera \<and>
     0 < sensor_size_x_mm camera \<and> 0 < sensor_size_y_mm camera \<and>
     0 < image_size_x camera \<and> 0 < image_size_y camera"

definition valid_spec :: "DatasetSpec \<Rightarrow> bool" where
  "valid_spec dataset_spec \<longleftrightarrow>
     0 \<le> overlap dataset_spec \<and> overlap dataset_spec < 1 \<and>
     0 \<le> sidelap dataset_spec \<and> sidelap dataset_spec < 1 \<and>
     0 < height dataset_spec \<and>
     0 \<le> scan_dimension_x dataset_spec \<and> 0 \<le> scan_dimension_y dataset_spec \<and>
     0 < exposure_time_ms dataset_spec"

section \<open>The grid in closed form\<close>

text \<open>
  The specification's words for the number of intervals and of grid lines of an axis:
  no interval when the scan dimension is 0, else the ceiling of the scan dimension over
  the ideal distance; one line more than intervals.
\<close>

definition spec_intervals :: "int \<Rightarrow> real \<Rightarrow> int" where
  "spec_intervals scan_dimension ideal_distance =
     (if scan_dimension = 0 then 0 else \<lceil>of_int scan_dimension / ideal_distance\<rceil>)"

definition spec_lines :: "int \<Rightarrow> real \<Rightarrow> int" where
  "spec_lines scan_dimension ideal_distance = spec_intervals scan_dimension ideal_distance + 1"

text \<open>The waypoints of row \<open>r\<close>, and the rows one after the other.\<close>

definition row_waypoints ::
  "nat \<Rightarrow> int \<Rightarrow> real \<Rightarrow> real \<Rightarrow> int \<Rightarrow> real \<Rightarrow> real \<Rightarrow> Waypoint list" where
  "row_waypoints r scan_dim_x actual_distance_x actual_distance_y num_cols h capture_speed =
     map (\<lambda>x_coord. \<lparr>x = x_coord, y = real r * actual_distance_y, z = h, speed = capture_speed\<rparr>)
       (x_coords r scan_dim_x actual_distance_x num_cols)"

definition lawnmower_grid ::
  "int \<Rightarrow> int \<Rightarrow> int \<Rightarrow> int \<Rightarrow> real \<Rightarrow> real \<Rightarrow> Waypoint list" where
  "lawnmower_grid scan_dim_x scan_dim_y num_cols num_rows h capture_speed =
     concat (map (\<lambda>r. row_waypoints r scan_dim_x (actual_distance scan_dim_x num_cols)
                        (actual_distance scan_dim_y num_rows) num_cols h capture_speed)
                 [0..<nat num_rows])"

section \<open>Example inputs\<close>

definition example_camera :: Camera where
  "example_camera =
     \<lparr>fx = 1000, fy = 1000, cx = 500, cy = 500,
      sensor_size_x_mm = 36, sensor_size_y_mm = 24,
      image_size_x = 1000, image_size_y = 800\<rparr>"

definition example_spec :: DatasetSpec where
  "example_spec =
     \<lparr>overlap = 0, sidelap = 0, height = 30,
      scan_dimension_x = 100, scan_dimension_y = 50, exposure_time_ms = 2\<rparr>"


definition example_spec_point :: DatasetSpec where
  "example_spec_point = example_spec\<lparr>scan_dimension_x := 0, scan_dimension_y := 0\<rparr>"

section \<open>The two loops as a list of rows\<close>

lemma append_row_eq:
  "append_row cs y_coord h v plan =
     plan @ map (\<lambda>c. \<lparr>x = c, y = y_coord, z = h, speed = v\<rparr>) cs"
  by (induction cs arbitrary: plan) simp_all

lemma scan_rows_eq:
  "scan_rows rs sx ax ay nc h v plan =
     plan @ concat (map (\<lambda>r. row_waypoints r sx ax ay nc h v) rs)"
  by (induction rs arbitrary: plan) (simp_all add: append_row_eq row_waypoints_def)

lemma length_x_coords: "length (x_coords r sx ax nc) = nat nc"
  by (simp add: x_coords_def py_range_def)

lemma length_row_waypoints: "length (row_waypoints r sx ax ay nc h v) = nat nc"
  by (simp add: row_waypoints_def length_x_coords)

lemma length_concat_uniform:
  "(\<And>r. length (f r) = n) \<Longrightarrow> length (concat (map f [0..<m])) = m * n"
  by (induction m) simp_all


lemma length_lawnmower_grid:
  "length (lawnmower_grid sx sy nc nr h v) = nat nr * nat nc"
  unfolding lawnmower_grid_def
  by (rule length_concat_uniform) (rule length_row_waypoints)


section \<open>Line counts and spacing\<close>

lemma spec_intervals_nonneg:
  assumes "0 \<le> sd" "0 < d"
  shows "0 \<le> spec_intervals sd d"
proof -
  from assms have "0 \<le> real_of_int sd / d" by simp
  then have "0 \<le> \<lceil>real_of_int sd / d\<rceil>" by (simp only: zero_le_ceiling)
  then show ?thesis by (simp add: spec_intervals_def)
qed


lemma spec_lines_ge_1: "0 \<le> sd \<Longrightarrow> 0 < d \<Longrightarrow> 1 \<le> spec_lines sd d"
  using spec_intervals_nonneg[of sd d] by (simp add: spec_lines_def)






lemma distance_between_images_valid:
  assumes "valid_camera camera" "valid_spec dataset_spec"
  shows "\<exists>dx dy. 0 < dx \<and> 0 < dy \<and>
     compute_distance_between_images camera dataset_spec = Inr (Finite dx, Finite dy)"
proof -
  let ?fpx = "sensor_size_x_mm camera * (height dataset_spec * 1000) /
      (fx camera * (sensor_size_x_mm camera / real_of_int (image_size_x camera))) / 1000"
  let ?fpy = "sensor_size_y_mm camera * (height dataset_spec * 1000) /
      (fy camera * (sensor_size_y_mm camera / real_of_int (image_size_y camera))) / 1000"
  from assms have fp: "0 < ?fpx" "0 < ?fpy"
    by (simp_all add: valid_camera_def valid_spec_def)
  from assms have ov: "0 < 1 - overlap dataset_spec" "0 < 1 - sidelap dataset_spec"
    by (simp_all add: valid_spec_def)
  from assms have nz: "fx camera \<noteq> 0" "fy camera \<noteq> 0" "sensor_size_x_mm camera \<noteq> 0"
    "sensor_size_y_mm camera \<noteq> 0" "image_size_x camera \<noteq> 0" "image_size_y camera \<noteq> 0"
    by (simp_all add: valid_camera_def)
  have "compute_distance_between_images camera dataset_spec =
      Inr (Finite (?fpx * (1 - overlap dataset_spec)), Finite (?fpy * (1 - sidelap dataset_spec)))"
    using nz
    by (simp add: compute_distance_between_images_def compute_image_footprint_on_surface_def
        compute_focal_length_in_mm_def py_bind_def py_truediv_def Let_def)
  moreover have "0 < ?fpx * (1 - overlap dataset_spec)" using fp(1) ov(1) by (rule mult_pos_pos)
  moreover have "0 < ?fpy * (1 - sidelap dataset_spec)" using fp(2) ov(2) by (rule mult_pos_pos)
  ultimately show ?thesis by blast
qed

lemma speed_valid:
  assumes "valid_camera camera" "valid_spec dataset_spec"
  shows "\<exists>v. 0 < v \<and> compute_speed_during_photo_capture_default camera dataset_spec = Inr v"
proof -
  let ?v = "height dataset_spec / min (fx camera) (fy camera) /
     (real_of_int (exposure_time_ms dataset_spec) / 1000)"
  from assms have m: "0 < min (fx camera) (fy camera)" by (simp add: valid_camera_def)
  from assms have e: "0 < real_of_int (exposure_time_ms dataset_spec) / 1000"
    by (simp add: valid_spec_def)
  from assms have h: "0 < height dataset_spec" by (simp add: valid_spec_def)
  from m have m': "min (fx camera) (fy camera) \<noteq> 0" by auto
  from h m have "0 < height dataset_spec / min (fx camera) (fy camera)" by (rule divide_pos_pos)
  then have "0 < ?v" using e by (rule divide_pos_pos)
  moreover have "compute_speed_during_photo_capture_default camera dataset_spec = Inr ?v"
    using m' e
    by (simp add: compute_speed_during_photo_capture_default_def
        compute_speed_during_photo_capture_def compute_ground_sampling_distance_def
        py_bind_def py_truediv_def Let_def)
  ultimately show ?thesis by blast
qed

lemma num_intervals_finite:
  "d \<noteq> 0 \<Longrightarrow> num_intervals sd (Finite d) = Inr (spec_intervals sd d)"
  by (simp add: num_intervals_def spec_intervals_def)

lemma num_lines_first_finite:
  "d \<noteq> 0 \<Longrightarrow> num_lines_first sd (Finite d) = Inr (spec_lines sd d)"
  by (simp add: num_lines_first_def spec_lines_def spec_intervals_def py_bind_def)

lemma generate_from_parts:
  assumes "compute_distance_between_images camera dataset_spec = Inr (Finite dx, Finite dy)"
    and "compute_speed_during_photo_capture_default camera dataset_spec = Inr v"
    and "dx \<noteq> 0" "dy \<noteq> 0"
  shows "generate_photo_plan_on_grid camera dataset_spec =
     Inr (lawnmower_grid (scan_dimension_x dataset_spec) (scan_dimension_y dataset_spec)
            (spec_lines (scan_dimension_x dataset_spec) dx)
            (spec_lines (scan_dimension_y dataset_spec) dy)
            (height dataset_spec) v)"
  using assms
  by (simp add: generate_photo_plan_on_grid_def py_bind_def Let_def num_intervals_finite
      num_lines_first_finite scan_rows_eq lawnmower_grid_def py_range_def spec_lines_def)

lemma generate_valid:
  assumes "valid_camera camera" "valid_spec dataset_spec"
  shows "\<exists>dx dy v. 0 < dx \<and> 0 < dy \<and> 0 < v \<and>
     compute_distance_between_images camera dataset_spec = Inr (Finite dx, Finite dy) \<and>
     compute_speed_during_photo_capture_default camera dataset_spec = Inr v \<and>
     generate_photo_plan_on_grid camera dataset_spec =
       Inr (lawnmower_grid (scan_dimension_x dataset_spec) (scan_dimension_y dataset_spec)
              (spec_lines (scan_dimension_x dataset_spec) dx)
              (spec_lines (scan_dimension_y dataset_spec) dy)
              (height dataset_spec) v)"
proof -
  from distance_between_images_valid[OF assms] obtain dx dy where
    d: "0 < dx" "0 < dy"
      "compute_distance_between_images camera dataset_spec = Inr (Finite dx, Finite dy)"
    by blast
  from speed_valid[OF assms] obtain v where
    v: "0 < v" "compute_speed_during_photo_capture_default camera dataset_spec = Inr v"
    by blast
  from d have "dx \<noteq> 0" "dy \<noteq> 0" by simp_all
  from generate_from_parts[OF d(3) v(2) this] d v show ?thesis by blast
qed

section \<open>Properties of the grid\<close>

lemma lawnmower_grid_member:
  assumes "w \<in> set (lawnmower_grid sx sy nc nr h v)"
  shows "\<exists>r<nat nr. \<exists>c<nat nc.
     w = \<lparr>x = (if even r then real c * actual_distance sx nc
                else of_int sx - real c * actual_distance sx nc),
          y = real r * actual_distance sy nr, z = h, speed = v\<rparr>"
proof -
  from assms obtain r where r: "r < nat nr"
    and w: "w \<in> set (row_waypoints r sx (actual_distance sx nc) (actual_distance sy nr) nc h v)"
    by (auto simp: lawnmower_grid_def)
  from w obtain c where c: "c < nat nc"
    and "w = \<lparr>x = (if even r then real c * actual_distance sx nc
                else of_int sx - real c * actual_distance sx nc),
          y = real r * actual_distance sy nr, z = h, speed = v\<rparr>"
    by (auto simp: row_waypoints_def x_coords_def py_range_def even_iff_mod_2_eq_zero
        split: if_splits)
  with r show ?thesis by blast
qed

lemma lawnmower_grid_nonempty:
  assumes "1 \<le> nc" "1 \<le> nr"
  shows "lawnmower_grid sx sy nc nr h v \<noteq> []"
proof -
  have "length (lawnmower_grid sx sy nc nr h v) = nat nr * nat nc"
    by (rule length_lawnmower_grid)
  moreover from assms have "0 < nat nr * nat nc" by simp
  ultimately show ?thesis by auto
qed

lemma lawnmower_grid_single:
  "lawnmower_grid 0 0 1 1 h v = [\<lparr>x = 0, y = 0, z = h, speed = v\<rparr>]"
  by (simp add: lawnmower_grid_def row_waypoints_def x_coords_def py_range_def)

lemma spec_lines_zero: "spec_lines 0 d = 1"
  by (simp add: spec_lines_def spec_intervals_def)



lemma py_range_1: "py_range 1 = [0]"
  by (simp add: py_range_def)


section \<open>The example inputs evaluated\<close>

lemma example_camera_valid: "valid_camera example_camera"
  by (simp add: valid_camera_def example_camera_def)

lemma example_spec_valid: "valid_spec example_spec"
  by (simp add: valid_spec_def example_spec_def)




lemma example_speed:
  "compute_speed_during_photo_capture example_camera example_spec 1 = Inr 15"
  by (simp add: compute_speed_during_photo_capture_def compute_ground_sampling_distance_def
      py_bind_def py_truediv_def example_camera_def example_spec_def)

lemma example_spec_point_valid: "valid_spec example_spec_point"
  by (simp add: valid_spec_def example_spec_point_def example_spec_def)

lemma example_speed_point:
  "compute_speed_during_photo_capture example_camera example_spec_point 1 = Inr 15"
  by (simp add: compute_speed_during_photo_capture_def compute_ground_sampling_distance_def
      py_bind_def py_truediv_def example_camera_def example_spec_def example_spec_point_def)



section \<open>Non-finite values\<close>

lemma np_true_divide_by_zero: "\<not> is_finite (np_true_divide a (Finite 0))"
  by (cases a) simp_all

lemma np_multiply_not_finite: "\<not> is_finite b \<Longrightarrow> \<not> is_finite (np_multiply (Finite a) b)"
  by (cases b) simp_all

lemma np_add_scalar_not_finite: "\<not> is_finite a \<Longrightarrow> \<not> is_finite (np_add_scalar a b)"
  by (cases a) simp_all

section \<open>The claims\<close>







text \<open>
  C4. For valid inputs with both scan dimensions 0, \<^verbatim>\<open>generate_photo_plan_on_grid\<close>
  returns exactly one waypoint, at \<open>(0, 0, height)\<close> and with the speed of
  \<^verbatim>\<open>compute_speed_during_photo_capture\<close>.
\<close>

theorem single_point_plan:
  assumes "valid_camera camera" "valid_spec dataset_spec"
    and "scan_dimension_x dataset_spec = 0" "scan_dimension_y dataset_spec = 0"
  shows "\<exists>v. compute_speed_during_photo_capture camera dataset_spec 1 = Inr v \<and>
     generate_photo_plan_on_grid camera dataset_spec =
       Inr [\<lparr>x = 0, y = 0, z = height dataset_spec, speed = v\<rparr>]"
proof -
  from generate_valid[OF assms(1,2)] obtain dx dy v where
    sp: "compute_speed_during_photo_capture_default camera dataset_spec = Inr v"
    and gen: "generate_photo_plan_on_grid camera dataset_spec =
       Inr (lawnmower_grid (scan_dimension_x dataset_spec) (scan_dimension_y dataset_spec)
              (spec_lines (scan_dimension_x dataset_spec) dx)
              (spec_lines (scan_dimension_y dataset_spec) dy) (height dataset_spec) v)"
    by blast
  from gen assms(3,4) have "generate_photo_plan_on_grid camera dataset_spec =
       Inr [\<lparr>x = 0, y = 0, z = height dataset_spec, speed = v\<rparr>]"
    by (simp add: spec_lines_zero lawnmower_grid_single)
  moreover from sp have "compute_speed_during_photo_capture camera dataset_spec 1 = Inr v"
    by (simp add: compute_speed_during_photo_capture_default_def)
  ultimately show ?thesis by blast
qed

theorem single_point_plan_witness:
  "valid_camera example_camera \<and> valid_spec example_spec_point \<and>
   scan_dimension_x example_spec_point = 0 \<and> scan_dimension_y example_spec_point = 0 \<and>
   generate_photo_plan_on_grid example_camera example_spec_point =
     Inr [\<lparr>x = 0, y = 0, z = 30, speed = 15\<rparr>]"
proof -
  have a: "scan_dimension_x example_spec_point = 0" by (simp add: example_spec_point_def)
  have b: "scan_dimension_y example_spec_point = 0" by (simp add: example_spec_point_def)
  have h: "height example_spec_point = 30"
    by (simp add: example_spec_point_def example_spec_def)
  from single_point_plan[OF example_camera_valid example_spec_point_valid a b] obtain v where
    sp: "compute_speed_during_photo_capture example_camera example_spec_point 1 = Inr v"
    and gen: "generate_photo_plan_on_grid example_camera example_spec_point =
       Inr [\<lparr>x = 0, y = 0, z = height example_spec_point, speed = v\<rparr>]"
    by blast
  from sp have "v = 15" by (simp add: example_speed_point)
  with gen h have "generate_photo_plan_on_grid example_camera example_spec_point =
     Inr [\<lparr>x = 0, y = 0, z = 30, speed = 15\<rparr>]" by simp
  with a b example_camera_valid example_spec_point_valid show ?thesis by blast
qed

text \<open>
  C5. For valid inputs the returned plan is not empty, every waypoint has the height of
  the specification as its \<open>z\<close> and the result of \<^verbatim>\<open>compute_speed_during_photo_capture\<close> as
  its speed, and that speed is not negative.
\<close>

theorem constant_height_and_speed:
  assumes "valid_camera camera" "valid_spec dataset_spec"
  shows "\<exists>v plan.
     compute_speed_during_photo_capture camera dataset_spec 1 = Inr v \<and>
     generate_photo_plan_on_grid camera dataset_spec = Inr plan \<and>
     plan \<noteq> [] \<and>
     (\<forall>w\<in>set plan. z w = height dataset_spec \<and> speed w = v) \<and>
     0 \<le> v"
proof -
  define sx where "sx = scan_dimension_x dataset_spec"
  define sy where "sy = scan_dimension_y dataset_spec"
  from generate_valid[OF assms] obtain dx dy v where
    d: "0 < dx" "0 < dy" and v: "0 < v"
    and sp: "compute_speed_during_photo_capture_default camera dataset_spec = Inr v"
    and gen: "generate_photo_plan_on_grid camera dataset_spec =
       Inr (lawnmower_grid sx sy (spec_lines sx dx) (spec_lines sy dy) (height dataset_spec) v)"
    unfolding sx_def sy_def by blast
  define plan where
    "plan = lawnmower_grid sx sy (spec_lines sx dx) (spec_lines sy dy) (height dataset_spec) v"
  from assms(2) have s: "0 \<le> sx" "0 \<le> sy" by (simp_all add: valid_spec_def sx_def sy_def)
  have nc1: "1 \<le> spec_lines sx dx" using s(1) d(1) by (rule spec_lines_ge_1)
  have nr1: "1 \<le> spec_lines sy dy" using s(2) d(2) by (rule spec_lines_ge_1)
  have ne: "plan \<noteq> []" unfolding plan_def using nc1 nr1 by (rule lawnmower_grid_nonempty)
  have all: "\<forall>w\<in>set plan. z w = height dataset_spec \<and> speed w = v"
  proof
    fix w assume "w \<in> set plan"
    then have "w \<in> set (lawnmower_grid sx sy (spec_lines sx dx) (spec_lines sy dy)
        (height dataset_spec) v)" by (simp only: plan_def)
    from lawnmower_grid_member[OF this] show "z w = height dataset_spec \<and> speed w = v"
      by auto
  qed
  from sp have sp': "compute_speed_during_photo_capture camera dataset_spec 1 = Inr v"
    by (simp add: compute_speed_during_photo_capture_default_def)
  from gen have "generate_photo_plan_on_grid camera dataset_spec = Inr plan"
    by (simp only: plan_def)
  with sp' ne all v show ?thesis by (intro exI[of _ v] exI[of _ plan]) simp
qed

theorem constant_height_and_speed_witness:
  "valid_camera example_camera \<and> valid_spec example_spec \<and>
   (\<exists>plan. generate_photo_plan_on_grid example_camera example_spec = Inr plan \<and>
      plan \<noteq> [] \<and> z (hd plan) = 30 \<and> speed (hd plan) = 15)"
proof -
  from constant_height_and_speed[OF example_camera_valid example_spec_valid]
  obtain v plan where
    sp: "compute_speed_during_photo_capture example_camera example_spec 1 = Inr v"
    and gen: "generate_photo_plan_on_grid example_camera example_spec = Inr plan"
    and ne: "plan \<noteq> []"
    and all: "\<forall>w\<in>set plan. z w = height example_spec \<and> speed w = v"
    by blast
  from sp have v: "v = 15" by (simp add: example_speed)
  from ne have "hd plan \<in> set plan" by simp
  with all have "z (hd plan) = height example_spec \<and> speed (hd plan) = v" by blast
  with v have "z (hd plan) = 30 \<and> speed (hd plan) = 15" by (simp add: example_spec_def)
  with gen ne example_camera_valid example_spec_valid show ?thesis by blast
qed

text \<open>
  C6. The claim is that projecting a point with \<open>Z = 0\<close> fails with an explicit domain
  error. The code has no such check: the point is a numpy array, numpy's division by zero
  raises nothing, and the function returns non-finite pixel coordinates. First the
  claim refuted at the point \<open>(1, 2, 0)\<close>.
\<close>

theorem projection_at_zero_depth_counterexample:
  "project_world_point_to_image example_camera [Finite 1, Finite 2, Finite 0] =
     Inr (Infinite, Infinite)"
  by (simp add: project_world_point_to_image_def py_bind_def py_index_def example_camera_def)

text \<open>
  C6, as amended. For every camera and every point with at least three coordinates whose
  third coordinate \<open>Z\<close> is 0, \<^verbatim>\<open>project_world_point_to_image\<close> raises nothing and returns a
  pair of pixel coordinates neither of which is finite (each is an infinity or a nan).
\<close>

theorem projection_at_zero_depth:
  assumes "3 \<le> length point" "point ! 2 = Finite 0"
  shows "\<exists>u v. project_world_point_to_image camera point = Inr (u, v) \<and>
     \<not> is_finite u \<and> \<not> is_finite v"
proof -
  let ?u = "np_add_scalar (np_multiply (Finite (fx camera))
      (np_true_divide (point ! 0) (Finite 0))) (cx camera)"
  let ?v = "np_add_scalar (np_multiply (Finite (fy camera))
      (np_true_divide (point ! 1) (Finite 0))) (cy camera)"
  from assms have idx: "py_index point 0 = Inr (point ! 0)"
    "py_index point 1 = Inr (point ! 1)" "py_index point 2 = Inr (Finite 0)"
    by (auto simp: py_index_def)
  have "project_world_point_to_image camera point = Inr (?u, ?v)"
    by (simp only: project_world_point_to_image_def py_bind_def idx Let_def sum.case)
  moreover have "\<not> is_finite ?u"
    by (intro np_add_scalar_not_finite np_multiply_not_finite np_true_divide_by_zero)
  moreover have "\<not> is_finite ?v"
    by (intro np_add_scalar_not_finite np_multiply_not_finite np_true_divide_by_zero)
  ultimately show ?thesis by blast
qed

theorem projection_at_zero_depth_witness:
  "3 \<le> length [Finite 1, Finite 2, Finite 0] \<and> [Finite 1, Finite 2, Finite 0] ! 2 = Finite 0 \<and>
   (\<exists>u v. project_world_point_to_image example_camera [Finite 1, Finite 2, Finite 0] = Inr (u, v) \<and>
      \<not> is_finite u \<and> \<not> is_finite v)"
proof -
  have a: "3 \<le> length [Finite 1, Finite 2, Finite 0]" by simp
  have b: "[Finite 1, Finite 2, Finite 0] ! 2 = Finite 0" by simp
  from projection_at_zero_depth[OF a b, of example_camera] a b show ?thesis by blast
qed



text \<open>
  C8. \<^verbatim>\<open>compute_speed_during_photo_capture\<close> returns the ground sampling distance at the
  specification's height, times the allowed movement in pixels, over the exposure time in
  seconds; the allowed movement defaults to 1; and for the same camera and height, a
  specification with half the exposure time gets twice the speed. The hypotheses are the
  two divisors the code divides by: with a zero divisor Python raises ZeroDivisionError.
\<close>

theorem capture_speed_formula:
  assumes "min (fx camera) (fy camera) \<noteq> 0" "exposure_time_ms dataset_spec \<noteq> 0"
  shows "\<exists>gsd. compute_ground_sampling_distance camera (height dataset_spec) = Inr gsd \<and>
     compute_speed_during_photo_capture camera dataset_spec allowed_movement_px =
       Inr (gsd * allowed_movement_px / (of_int (exposure_time_ms dataset_spec) / 1000)) \<and>
     compute_speed_during_photo_capture_default camera dataset_spec =
       Inr (gsd * 1 / (of_int (exposure_time_ms dataset_spec) / 1000)) \<and>
     (\<forall>half_spec. height half_spec = height dataset_spec \<and>
        2 * exposure_time_ms half_spec = exposure_time_ms dataset_spec \<longrightarrow>
        compute_speed_during_photo_capture camera half_spec allowed_movement_px =
          Inr (2 * (gsd * allowed_movement_px / (of_int (exposure_time_ms dataset_spec) / 1000))))"
proof -
  let ?gsd = "height dataset_spec / min (fx camera) (fy camera)"
  have g: "compute_ground_sampling_distance camera (height dataset_spec) = Inr ?gsd"
    using assms(1) by (simp add: compute_ground_sampling_distance_def py_truediv_def)
  have sp: "compute_speed_during_photo_capture camera s a =
      Inr (?gsd * a / (of_int (exposure_time_ms s) / 1000))"
    if "height s = height dataset_spec" "exposure_time_ms s \<noteq> 0" for s a
    using that assms(1)
    by (simp add: compute_speed_during_photo_capture_def compute_ground_sampling_distance_def
        py_bind_def py_truediv_def Let_def)
  have s1: "compute_speed_during_photo_capture camera dataset_spec allowed_movement_px =
       Inr (?gsd * allowed_movement_px / (of_int (exposure_time_ms dataset_spec) / 1000))"
    using assms(2) by (intro sp) simp_all
  have s2: "compute_speed_during_photo_capture_default camera dataset_spec =
       Inr (?gsd * 1 / (of_int (exposure_time_ms dataset_spec) / 1000))"
    unfolding compute_speed_during_photo_capture_default_def
    using assms(2) by (intro sp) simp_all
  have s3: "compute_speed_during_photo_capture camera half_spec allowed_movement_px =
      Inr (2 * (?gsd * allowed_movement_px / (of_int (exposure_time_ms dataset_spec) / 1000)))"
    if h: "height half_spec = height dataset_spec \<and>
      2 * exposure_time_ms half_spec = exposure_time_ms dataset_spec" for half_spec
  proof -
    from h assms(2) have nz: "exposure_time_ms half_spec \<noteq> 0" by auto
    from h have e: "real_of_int (exposure_time_ms dataset_spec) =
        2 * real_of_int (exposure_time_ms half_spec)"
      by (metis of_int_mult of_int_numeral)
    from h nz have "compute_speed_during_photo_capture camera half_spec allowed_movement_px =
      Inr (?gsd * allowed_movement_px / (of_int (exposure_time_ms half_spec) / 1000))"
      by (intro sp) simp_all
    also have "?gsd * allowed_movement_px / (of_int (exposure_time_ms half_spec) / 1000) =
       2 * (?gsd * allowed_movement_px / (of_int (exposure_time_ms dataset_spec) / 1000))"
      using nz by (simp add: e)
    finally show ?thesis .
  qed
  from g s1 s2 s3 show ?thesis by blast
qed

theorem capture_speed_formula_witness:
  "min (fx example_camera) (fy example_camera) \<noteq> 0 \<and> exposure_time_ms example_spec \<noteq> 0 \<and>
   compute_speed_during_photo_capture example_camera example_spec 1 = Inr 15 \<and>
   compute_speed_during_photo_capture example_camera (example_spec\<lparr>exposure_time_ms := 1\<rparr>) 1
     = Inr 30"
proof -
  have a: "min (fx example_camera) (fy example_camera) \<noteq> 0"
    by (simp add: example_camera_def)
  have b: "exposure_time_ms example_spec \<noteq> 0" by (simp add: example_spec_def)
  from capture_speed_formula[OF a b, of 1] obtain gsd where
    g: "compute_ground_sampling_distance example_camera (height example_spec) = Inr gsd"
    and s: "compute_speed_during_photo_capture example_camera example_spec 1 =
       Inr (gsd * 1 / (of_int (exposure_time_ms example_spec) / 1000))"
    and h: "\<forall>half_spec. height half_spec = height example_spec \<and>
        2 * exposure_time_ms half_spec = exposure_time_ms example_spec \<longrightarrow>
        compute_speed_during_photo_capture example_camera half_spec 1 =
          Inr (2 * (gsd * 1 / (of_int (exposure_time_ms example_spec) / 1000)))"
    by blast
  from g have gv: "gsd = 3 / 100"
    by (simp add: compute_ground_sampling_distance_def py_truediv_def example_camera_def
        example_spec_def)
  from s gv have s': "compute_speed_during_photo_capture example_camera example_spec 1 = Inr 15"
    by (simp add: example_spec_def)
  have "height (example_spec\<lparr>exposure_time_ms := 1\<rparr>) = height example_spec \<and>
        2 * exposure_time_ms (example_spec\<lparr>exposure_time_ms := 1\<rparr>) = exposure_time_ms example_spec"
    by (simp add: example_spec_def)
  with h have "compute_speed_during_photo_capture example_camera
      (example_spec\<lparr>exposure_time_ms := 1\<rparr>) 1 =
      Inr (2 * (gsd * 1 / (of_int (exposure_time_ms example_spec) / 1000)))"
    by blast
  with gv have "compute_speed_during_photo_capture example_camera
      (example_spec\<lparr>exposure_time_ms := 1\<rparr>) 1 = Inr 30"
    by (simp add: example_spec_def)
  with a b s' show ?thesis by blast
qed

text \<open>
  C9. For a camera with positive focal lengths, \<^verbatim>\<open>compute_ground_sampling_distance\<close>
  returns the distance over the smaller focal length; for a positive distance that is the
  larger of the two per-axis resolutions; and doubling the distance doubles the result.
\<close>

theorem ground_sampling_distance_formula:
  assumes "0 < fx camera" "0 < fy camera"
  shows "compute_ground_sampling_distance camera distance_from_surface =
       Inr (distance_from_surface / min (fx camera) (fy camera)) \<and>
     (0 < distance_from_surface \<longrightarrow>
        distance_from_surface / min (fx camera) (fy camera) =
        max (distance_from_surface / fx camera) (distance_from_surface / fy camera)) \<and>
     compute_ground_sampling_distance camera (2 * distance_from_surface) =
       Inr (2 * (distance_from_surface / min (fx camera) (fy camera)))"
proof -
  from assms have m: "min (fx camera) (fy camera) \<noteq> 0" by auto
  have g: "compute_ground_sampling_distance camera d = Inr (d / min (fx camera) (fy camera))"
    for d
    using m by (simp add: compute_ground_sampling_distance_def py_truediv_def)
  have mx: "distance_from_surface / min (fx camera) (fy camera) =
        max (distance_from_surface / fx camera) (distance_from_surface / fy camera)"
    if d: "0 < distance_from_surface"
  proof (cases "fx camera \<le> fy camera")
    case True
    with assms d have "distance_from_surface / fy camera \<le> distance_from_surface / fx camera"
      by (simp add: frac_le)
    with True show ?thesis by (simp add: min_def max_def)
  next
    case False
    with assms d have "distance_from_surface / fx camera \<le> distance_from_surface / fy camera"
      by (simp add: frac_le)
    with False show ?thesis by (simp add: min_def max_def)
  qed
  from g[of distance_from_surface] g[of "2 * distance_from_surface"] mx show ?thesis by simp
qed

theorem ground_sampling_distance_formula_witness:
  "0 < fx example_camera \<and> 0 < fy example_camera \<and>
   compute_ground_sampling_distance example_camera 30 = Inr (3 / 100) \<and>
   compute_ground_sampling_distance example_camera (2 * 30) = Inr (2 * (3 / 100))"
proof -
  have a: "0 < fx example_camera" by (simp add: example_camera_def)
  have b: "0 < fy example_camera" by (simp add: example_camera_def)
  from ground_sampling_distance_formula[OF a b, of 30] a b show ?thesis
    by (simp add: example_camera_def)
qed



end
